theory Spec2Isabelle
  imports Main "HOL-Library.Sublist"
begin

section \<open>serverless-import-apigateway: the plugin of \<^verbatim>\<open>src/lib/index.js\<close>\<close>

text \<open>
  The model follows \<^verbatim>\<open>src/lib/index.js\<close>; the second source file is the same class
  without layer resolution. The plugin runs once before packaging. It rewrites layer
  names into layer ARNs, looks the REST API up by name, indexes its resource paths,
  selects the resources to import and writes three fields into \<^verbatim>\<open>provider.apiGateway\<close>
  of the service.

  Modelling decisions, all taken from the JavaScript:
  \<^item> a plain object used as a dictionary (\<^verbatim>\<open>pathIds\<close>, \<^verbatim>\<open>existingLayers\<close>,
    \<^verbatim>\<open>resourcesToImport\<close>) is the association list of its own properties in insertion
    order, which is the order of \<^verbatim>\<open>Object.keys\<close> and \<^verbatim>\<open>Object.entries\<close> for keys that
    are not array indices (gateway paths start with a slash). All three are created by
    the literal \<^verbatim>\<open>{}\<close>, so a read of a key that is no own property goes on to
    \<^verbatim>\<open>Object.prototype\<close> and returns the member of that name when there is one;
  \<^item> \<^verbatim>\<open>!x\<close> holds for \<^verbatim>\<open>undefined\<close> and for the empty string, and for no function or
    object;
  \<^item> whatever can be thrown is a value of the type \<open>error\<close>: a \<^verbatim>\<open>TypeError\<close> of the
    engine, the reason of a rejected provider request that has a message, or a reason
    that is \<^verbatim>\<open>null\<close> or \<^verbatim>\<open>undefined\<close>. Every function that can throw returns a sum,
    \<open>Inl\<close> being the exception;
  \<^item> the mutable plugin object (\<^verbatim>\<open>this\<close>) is a record threaded through the calls, the
    two log sinks included; the provider client is a record of its three responses;
  \<^item> a character is one code unit of the JavaScript string, below 256; of the line
    terminators that \<^verbatim>\<open>.\<close> refuses, line feed and carriage return are in that range.
\<close>

subsection \<open>Values, errors, dictionary objects\<close>

text \<open>
  The values that reach a layer list, a dictionary or the gateway section: \<^verbatim>\<open>undefined\<close>,
  a string, or the member of \<^verbatim>\<open>Object.prototype\<close> of the given name (a function; for
  \<^verbatim>\<open>__proto__\<close> the prototype object itself).
\<close>

datatype jsval = JUndefined | JStr string | JInherited string

datatype type_error = NotIterable | PropertyOfUndefined | NotAFunction

text \<open>
  \<open>RequestError m\<close> is a thrown value whose \<^verbatim>\<open>message\<close> prints as \<open>m\<close>; \<open>Nullish\<close> is a
  thrown \<^verbatim>\<open>null\<close> or \<^verbatim>\<open>undefined\<close>, which has no property to read.
\<close>

datatype error = TypeError type_error | RequestError string | Nullish

type_synonym obj = "(string \<times> jsval) list"

text \<open>The property names of \<^verbatim>\<open>Object.prototype\<close>.\<close>

definition object_prototype :: "string list" where
  "object_prototype =
     [''constructor'', ''__defineGetter__'', ''__defineSetter__'', ''hasOwnProperty'',
      ''__lookupGetter__'', ''__lookupSetter__'', ''isPrototypeOf'',
      ''propertyIsEnumerable'', ''toString'', ''valueOf'', ''__proto__'',
      ''toLocaleString'']"

text \<open>
  \<^verbatim>\<open>o[k]\<close> as a read: the own property, else the inherited member, else \<^verbatim>\<open>undefined\<close>.
\<close>

definition obj_get :: "obj \<Rightarrow> string \<Rightarrow> jsval" where
  "obj_get ob k =
     (case map_of ob k of
        Some v \<Rightarrow> v
      | None \<Rightarrow> if k \<in> set object_prototype then JInherited k else JUndefined)"

text \<open>
  \<^verbatim>\<open>o[k] = v\<close>: an existing key keeps its place, a new key goes last. The key
  \<^verbatim>\<open>__proto__\<close> is the setter of the prototype: it creates no own property, it ignores a
  string, and given \<^verbatim>\<open>Object.prototype\<close> it leaves the prototype as it is. Those are the
  only values the plugin assigns under that key (a string from the provider, or what
  \<^verbatim>\<open>pathIds['__proto__']\<close> returned), so the assignment changes nothing.
\<close>

fun own_set :: "obj \<Rightarrow> string \<Rightarrow> jsval \<Rightarrow> obj" where
  "own_set [] k v = [(k, v)]"
| "own_set ((k', v') # kvs) k v =
     (if k' = k then (k, v) # kvs else (k', v') # own_set kvs k v)"

definition obj_set :: "obj \<Rightarrow> string \<Rightarrow> jsval \<Rightarrow> obj" where
  "obj_set ob k v = (if k = ''__proto__'' then ob else own_set ob k v)"

definition obj_keys :: "obj \<Rightarrow> string list" where
  "obj_keys ob = map fst ob"

text \<open>
  A property read inside \<^verbatim>\<open>try\<close>. JavaScript raises on a property read only when the
  base is \<^verbatim>\<open>undefined\<close> or \<^verbatim>\<open>null\<close>; the base here is always an object, so the read
  returns.
\<close>

definition index_prop :: "obj \<Rightarrow> string \<Rightarrow> error + jsval" where
  "index_prop ob k = Inr (obj_get ob k)"

text \<open>\<^verbatim>\<open>!x\<close> for a value, and for an ID that is a string or \<^verbatim>\<open>undefined\<close>.\<close>

fun falsy :: "jsval \<Rightarrow> bool" where
  "falsy JUndefined = True"
| "falsy (JStr s) = (s = [])"
| "falsy (JInherited k) = False"

definition falsy_id :: "string option \<Rightarrow> bool" where
  "falsy_id v = (case v of None \<Rightarrow> True | Some s \<Rightarrow> s = [])"

text \<open>\<^verbatim>\<open>s.startsWith(p)\<close>.\<close>

fun startsWith :: "string \<Rightarrow> string \<Rightarrow> bool" where
  "startsWith s [] = True"
| "startsWith [] (c # p) = False"
| "startsWith (d # s) (c # p) = (if d = c then startsWith s p else False)"

subsection \<open>\<^verbatim>\<open>isArn\<close>: the regular expression, matched by backtracking\<close>

text \<open>
  \<^verbatim>\<open>/arn:aws:lambda:.+?:.+?:layer:.+?:[\d+]/g\<close> is a sequence of literals, lazy
  \<^verbatim>\<open>.+?\<close> and one character class (a digit or a plus sign). \<^verbatim>\<open>string.match\<close> searches
  for it at every start position; \<^verbatim>\<open>isArn\<close> is true when a match exists.
\<close>

datatype tok = Lit string | LazyPlusDot | DigitOrPlus

definition line_terminator :: "char \<Rightarrow> bool" where
  "line_terminator c = (c = CHR 0x0A \<or> c = CHR 0x0D)"

definition is_digit :: "char \<Rightarrow> bool" where
  "is_digit c = (c \<in> set ''0123456789'')"

fun match_here :: "tok list \<Rightarrow> string \<Rightarrow> bool" where
  "match_here [] s = True"
| "match_here (Lit l # ts) s =
     (if startsWith s l then match_here ts (drop (length l) s) else False)"
| "match_here (LazyPlusDot # ts) [] = False"
| "match_here (LazyPlusDot # ts) (c # cs) =
     (if line_terminator c then False
      else if match_here ts cs then True
      else match_here (LazyPlusDot # ts) cs)"
| "match_here (DigitOrPlus # ts) [] = False"
| "match_here (DigitOrPlus # ts) (c # cs) =
     (if is_digit c \<or> c = CHR ''+'' then match_here ts cs else False)"

fun search :: "tok list \<Rightarrow> string \<Rightarrow> bool" where
  "search ts [] = match_here ts []"
| "search ts (c # cs) = (if match_here ts (c # cs) then True else search ts cs)"

definition arn_regex :: "tok list" where
  "arn_regex =
     [Lit ''arn:aws:lambda:'', LazyPlusDot, Lit '':'', LazyPlusDot, Lit '':layer:'',
      LazyPlusDot, Lit '':'', DigitOrPlus]"

definition isArn :: "string \<Rightarrow> bool" where
  "isArn s = search arn_regex s"

subsection \<open>The service, the configuration, the provider client\<close>

record config =
  name :: string
  path :: string
  resources :: "string list option"
  config_resolveLayerArns :: bool

record http_event =
  http_path :: "string option"

record event =
  http :: "http_event option"

record func =
  events :: "event list option"
  func_layers :: "jsval list option"

type_synonym funcs = "(string \<times> func) list"

text \<open>
  The three fields the plugin writes. \<^verbatim>\<open>restApiRootResourceId\<close> and the values of
  \<^verbatim>\<open>restApiResources\<close> are what a read of \<^verbatim>\<open>pathIds\<close> returned.
\<close>

record api_gateway =
  restApiId :: "string option"
  restApiRootResourceId :: jsval
  restApiResources :: "obj option"

record provider_section =
  layers :: "jsval list option"
  apiGateway :: api_gateway

record service =
  provider :: provider_section
  service_functions :: "funcs option"

text \<open>
  A line of \<^verbatim>\<open>serverless.cli.log\<close>. The last line of a successful run prints
  \<^verbatim>\<open>JSON.stringify\<close> of the gateway section; it is kept as the section itself.
\<close>

datatype log_line = Line string | ImportedApiGateway api_gateway

record plugin =
  config :: config
  service :: service
  cli_log :: "log_line list"
  console_error :: "error list"

record rest_api =
  api_name :: string
  api_id :: string

record resource =
  res_path :: string
  res_id :: string

record layer_version =
  LayerVersionArn :: string

record layer =
  LayerName :: string
  LatestMatchingVersion :: "layer_version option"

text \<open>
  The three requests of \<^verbatim>\<open>this.provider.request\<close>: \<open>Inl\<close> is a rejected promise with its
  reason, \<open>Inr\<close> the field of the response the plugin reads (\<^verbatim>\<open>items\<close>, \<^verbatim>\<open>items\<close>,
  \<^verbatim>\<open>Layers\<close>).
\<close>

record aws =
  getRestApis :: "error + rest_api list option"
  getResources :: "string \<Rightarrow> error + resource list option"
  listLayers :: "error + layer list option"

subsection \<open>\<^verbatim>\<open>getRestApiPathIds\<close> and \<^verbatim>\<open>findRestApiIdByName\<close>\<close>

fun pathIds_loop :: "resource list \<Rightarrow> obj \<Rightarrow> obj" where
  "pathIds_loop [] pathIds = pathIds"
| "pathIds_loop (r # rs) pathIds =
     pathIds_loop rs (obj_set pathIds (res_path r) (JStr (res_id r)))"

definition getRestApiPathIds :: "aws \<Rightarrow> string \<Rightarrow> error + obj" where
  "getRestApiPathIds a rid =
     (case getResources a rid of
        Inl e \<Rightarrow> Inl e
      | Inr None \<Rightarrow> Inr []
      | Inr (Some its) \<Rightarrow> Inr (pathIds_loop its []))"

fun find_loop :: "string \<Rightarrow> rest_api list \<Rightarrow> string option" where
  "find_loop nm [] = None"
| "find_loop nm (r # rs) = (if nm = api_name r then Some (api_id r) else find_loop nm rs)"

definition findRestApiIdByName :: "aws \<Rightarrow> string \<Rightarrow> error + string option" where
  "findRestApiIdByName a nm =
     (case getRestApis a of
        Inl e \<Rightarrow> Inl e
      | Inr None \<Rightarrow> Inr None
      | Inr (Some its) \<Rightarrow> Inr (find_loop nm its))"

subsection \<open>\<^verbatim>\<open>_resolveLayerArns\<close> and \<^verbatim>\<open>resolveLayerArns\<close>\<close>

definition quote :: string where
  "quote = [CHR 0x27]"

text \<open>
  A value inside an array in a template literal: \<^verbatim>\<open>undefined\<close> is empty, a built-in
  function prints as Node prints it, \<^verbatim>\<open>Object.prototype\<close> as any plain object.
\<close>

fun element_toString :: "jsval \<Rightarrow> string" where
  "element_toString JUndefined = []"
| "element_toString (JStr s) = s"
| "element_toString (JInherited k) =
     (if k = ''__proto__'' then ''[object Object]''
      else ''function '' @ (if k = ''constructor'' then ''Object'' else k) @
           ''() { [native code] }'')"

text \<open>An array in a template literal: the elements joined by commas.\<close>

fun array_toString :: "jsval list \<Rightarrow> string" where
  "array_toString [] = []"
| "array_toString [v] = element_toString v"
| "array_toString (v # w # vs) = element_toString v @ '','' @ array_toString (w # vs)"

text \<open>
  The loop of \<^verbatim>\<open>_resolveLayerArns\<close> over \<^verbatim>\<open>resolvedAny\<close>, \<^verbatim>\<open>resolvedLayers\<close> and the
  log. \<^verbatim>\<open>isArn(layer)\<close> stands outside the \<^verbatim>\<open>try\<close> and calls \<^verbatim>\<open>layer.match\<close>: a
  \<^verbatim>\<open>TypeError\<close> on \<^verbatim>\<open>undefined\<close>, and on a function or object, which has no such method.
\<close>

fun layers_loop ::
  "jsval list \<Rightarrow> obj \<Rightarrow> bool \<Rightarrow> jsval list \<Rightarrow> log_line list
   \<Rightarrow> (error + bool \<times> jsval list) \<times> log_line list" where
  "layers_loop [] existingLayers resolvedAny resolvedLayers lg =
     (Inr (resolvedAny, resolvedLayers), lg)"
| "layers_loop (JUndefined # ls) existingLayers resolvedAny resolvedLayers lg =
     (Inl (TypeError PropertyOfUndefined), lg)"
| "layers_loop (JInherited k # ls) existingLayers resolvedAny resolvedLayers lg =
     (Inl (TypeError NotAFunction), lg)"
| "layers_loop (JStr l # ls) existingLayers resolvedAny resolvedLayers lg =
     (if isArn l then layers_loop ls existingLayers resolvedAny (resolvedLayers @ [JStr l]) lg
      else
        (case index_prop existingLayers l of
           Inr v \<Rightarrow> layers_loop ls existingLayers True (resolvedLayers @ [v]) lg
         | Inl e \<Rightarrow>
             layers_loop ls existingLayers resolvedAny resolvedLayers
               (lg @ [Line (''Unable to find layer in AWS list-layers: '' @ l @
                            '' [object Object]'' @ quote)])))"

definition u_resolveLayerArns ::
  "jsval list option \<Rightarrow> obj \<Rightarrow> log_line list \<Rightarrow> (error + jsval list) \<times> log_line list" where
  "u_resolveLayerArns lays existingLayers lg =
     (case lays of
        None \<Rightarrow> (Inl (TypeError NotIterable), lg)
      | Some ls \<Rightarrow>
          (case layers_loop ls existingLayers False [] lg of
             (Inl e, lg') \<Rightarrow> (Inl e, lg')
           | (Inr (resolvedAny, resolvedLayers), lg') \<Rightarrow>
               (Inr resolvedLayers,
                if resolvedAny
                then lg' @ [Line (''Resolved layer ARNs: '' @ array_toString resolvedLayers)]
                else lg')))"

fun existingLayers_loop :: "layer list \<Rightarrow> obj \<Rightarrow> error + obj" where
  "existingLayers_loop [] existingLayers = Inr existingLayers"
| "existingLayers_loop (l # ls) existingLayers =
     (case LatestMatchingVersion l of
        None \<Rightarrow> Inl (TypeError PropertyOfUndefined)
      | Some v \<Rightarrow>
          existingLayers_loop ls
            (obj_set existingLayers (LayerName l) (JStr (LayerVersionArn v))))"

text \<open>
  The loop over \<^verbatim>\<open>Object.entries(functions)\<close>: a function with a layer list gets the
  resolved list. An exception leaves the functions already visited rewritten.
\<close>

fun func_layers_loop ::
  "funcs \<Rightarrow> obj \<Rightarrow> log_line list \<Rightarrow> error option \<times> funcs \<times> log_line list" where
  "func_layers_loop [] existingLayers lg = (None, [], lg)"
| "func_layers_loop ((fname, f) # fs) existingLayers lg =
     (case func_layers f of
        None \<Rightarrow>
          (case func_layers_loop fs existingLayers lg of
             (r, fs', lg') \<Rightarrow> (r, (fname, f) # fs', lg'))
      | Some ls \<Rightarrow>
          (case u_resolveLayerArns (Some ls) existingLayers lg of
             (Inl e, lg') \<Rightarrow> (Some e, (fname, f) # fs, lg')
           | (Inr resolved, lg') \<Rightarrow>
               (case func_layers_loop fs existingLayers lg' of
                  (r, fs', lg'') \<Rightarrow> (r, (fname, f\<lparr>func_layers := Some resolved\<rparr>) # fs', lg''))))"

definition set_layers :: "jsval list option \<Rightarrow> plugin \<Rightarrow> plugin" where
  "set_layers v s = s\<lparr>service := (service s)\<lparr>provider := (provider (service s))\<lparr>layers := v\<rparr>\<rparr>\<rparr>"

definition set_functions :: "funcs option \<Rightarrow> plugin \<Rightarrow> plugin" where
  "set_functions v s = s\<lparr>service := (service s)\<lparr>service_functions := v\<rparr>\<rparr>"

definition set_apiGateway :: "api_gateway \<Rightarrow> plugin \<Rightarrow> plugin" where
  "set_apiGateway g s =
     s\<lparr>service := (service s)\<lparr>provider := (provider (service s))\<lparr>apiGateway := g\<rparr>\<rparr>\<rparr>"

definition set_resources :: "string list option \<Rightarrow> plugin \<Rightarrow> plugin" where
  "set_resources v s = s\<lparr>config := (config s)\<lparr>resources := v\<rparr>\<rparr>"

definition log :: "log_line \<Rightarrow> plugin \<Rightarrow> plugin" where
  "log l s = s\<lparr>cli_log := cli_log s @ [l]\<rparr>"

text \<open>
  \<^verbatim>\<open>resolveLayerArns\<close>: the inventory is built from \<^verbatim>\<open>get(response, 'Layers', [])\<close>, the
  empty list when the field is missing; then the provider list is resolved and assigned,
  then the list of each function that has one.
\<close>

definition resolveLayerArns :: "aws \<Rightarrow> plugin \<Rightarrow> (error + unit) \<times> plugin" where
  "resolveLayerArns a s =
     (case listLayers a of
        Inl e \<Rightarrow> (Inl e, s)
      | Inr response \<Rightarrow>
          (case existingLayers_loop (case response of None \<Rightarrow> [] | Some ls \<Rightarrow> ls) [] of
             Inl e \<Rightarrow> (Inl e, s)
           | Inr existingLayers \<Rightarrow>
               (case u_resolveLayerArns (layers (provider (service s))) existingLayers (cli_log s) of
                  (Inl e, lg) \<Rightarrow> (Inl e, s\<lparr>cli_log := lg\<rparr>)
                | (Inr resolved, lg) \<Rightarrow>
                    (let s1 = set_layers (Some resolved) (s\<lparr>cli_log := lg\<rparr>) in
                     case service_functions (service s1) of
                       None \<Rightarrow> (Inr (), s1)
                     | Some fs \<Rightarrow>
                         (case func_layers_loop fs existingLayers (cli_log s1) of
                            (r, fs', lg') \<Rightarrow>
                              (case r of Some e \<Rightarrow> Inl e | None \<Rightarrow> Inr (),
                               set_functions (Some fs') (s1\<lparr>cli_log := lg'\<rparr>)))))))"

subsection \<open>\<^verbatim>\<open>importApiGateway\<close>\<close>

text \<open>
  Lines 83 to 110: when \<^verbatim>\<open>config.resources\<close> is \<^verbatim>\<open>undefined\<close>, three nested loops push
  onto \<^verbatim>\<open>newResourcePaths\<close> every existing path an event path starts with.
\<close>

fun existing_loop :: "string \<Rightarrow> obj \<Rightarrow> string list \<Rightarrow> string list" where
  "existing_loop ep [] newResourcePaths = newResourcePaths"
| "existing_loop ep ((existingPath, pathId) # rest) newResourcePaths =
     (if startsWith ep existingPath
      then existing_loop ep rest (newResourcePaths @ [existingPath])
      else existing_loop ep rest newResourcePaths)"

fun events_loop :: "event list \<Rightarrow> obj \<Rightarrow> string list \<Rightarrow> string list" where
  "events_loop [] pathIds newResourcePaths = newResourcePaths"
| "events_loop (e # es) pathIds newResourcePaths =
     (case http e of
        None \<Rightarrow> events_loop es pathIds newResourcePaths
      | Some h \<Rightarrow>
          (case http_path h of
             None \<Rightarrow> events_loop es pathIds newResourcePaths
           | Some ep \<Rightarrow> events_loop es pathIds (existing_loop ep pathIds newResourcePaths)))"

fun functions_loop :: "funcs \<Rightarrow> obj \<Rightarrow> string list \<Rightarrow> string list" where
  "functions_loop [] pathIds newResourcePaths = newResourcePaths"
| "functions_loop ((fname, f) # fs) pathIds newResourcePaths =
     (case events f of
        None \<Rightarrow> functions_loop fs pathIds newResourcePaths
      | Some es \<Rightarrow> functions_loop fs pathIds (events_loop es pathIds newResourcePaths))"

definition inferResources :: "obj \<Rightarrow> plugin \<Rightarrow> plugin" where
  "inferResources pathIds s =
     (if resources (config s) = None
      then
        (case service_functions (service s) of
           None \<Rightarrow> set_resources (Some (obj_keys pathIds)) s
         | Some fs \<Rightarrow>
             (let newResourcePaths = functions_loop fs pathIds [];
                  s1 = set_resources (Some newResourcePaths) s
              in if length newResourcePaths = 0
                 then set_resources (Some (obj_keys pathIds)) s1 else s1))
      else s)"

text \<open>
  Lines 112 to 121: the loop over \<^verbatim>\<open>config.resources\<close>. \<open>Inl\<close> is the path at which
  the loop logs and returns, \<open>Inr\<close> the finished \<^verbatim>\<open>resourcesToImport\<close>.
\<close>

fun resources_loop :: "obj \<Rightarrow> string list \<Rightarrow> obj \<Rightarrow> string + obj" where
  "resources_loop pathIds [] resourcesToImport = Inr resourcesToImport"
| "resources_loop pathIds (resourcePath # rest) resourcesToImport =
     (if falsy (obj_get pathIds resourcePath) then Inl resourcePath
      else resources_loop pathIds rest
             (obj_set resourcesToImport resourcePath (obj_get pathIds resourcePath)))"

text \<open>The three \<^verbatim>\<open>return\<close> statements of the \<^verbatim>\<open>try\<close> block, and its end.\<close>

datatype outcome = NoRestApi | NoRootResource | NoResource | Imported

definition no_rest_api :: "string \<Rightarrow> log_line" where
  "no_rest_api nm = Line (''Unable to find REST API named '' @ quote @ nm @ quote)"

definition no_root_resource :: "string \<Rightarrow> string \<Rightarrow> log_line" where
  "no_root_resource p rid =
     Line (''Unable to find root resource path ('' @ p @ '') for REST API ('' @ rid @ '')'')"

definition no_resource :: "string \<Rightarrow> string \<Rightarrow> log_line" where
  "no_resource p rid =
     Line (''Unable to find resource path ('' @ p @ '') for REST API ('' @ rid @ '')'')"

definition importApiGateway_try :: "aws \<Rightarrow> plugin \<Rightarrow> (error + outcome) \<times> plugin" where
  "importApiGateway_try a s =
     (case resolveLayerArns a s of
        (Inl e, s1) \<Rightarrow> (Inl e, s1)
      | (Inr u, s1) \<Rightarrow>
     (case findRestApiIdByName a (name (config s1)) of
        Inl e \<Rightarrow> (Inl e, s1)
      | Inr found \<Rightarrow>
     (case (if falsy_id found then None else found) of
        None \<Rightarrow> (Inr NoRestApi, log (no_rest_api (name (config s1))) s1)
      | Some apiId \<Rightarrow>
     (case getRestApiPathIds a apiId of
        Inl e \<Rightarrow> (Inl e, s1)
      | Inr pathIds \<Rightarrow>
     (let rootResourceId = obj_get pathIds (path (config s1)) in
      if falsy rootResourceId
      then (Inr NoRootResource, log (no_root_resource (path (config s1)) apiId) s1)
      else
     (let s2 = inferResources pathIds s1 in
      case resources (config s2) of
        None \<Rightarrow> (Inl (TypeError NotIterable), s2)
      | Some rs \<Rightarrow>
     (case resources_loop pathIds rs [] of
        Inl resourcePath \<Rightarrow> (Inr NoResource, log (no_resource resourcePath apiId) s2)
      | Inr resourcesToImport \<Rightarrow>
     (let s3 = set_apiGateway
                 ((apiGateway (provider (service s2)))
                    \<lparr>restApiId := Some apiId,
                     restApiRootResourceId := rootResourceId,
                     restApiResources := Some resourcesToImport\<rparr>) s2
      in (Inr Imported,
          log (ImportedApiGateway (apiGateway (provider (service s3)))) s3)))))))))"

text \<open>
  The \<^verbatim>\<open>catch\<close> block, line 128: it reads \<^verbatim>\<open>e.message\<close> and prints it on
  \<^verbatim>\<open>console.error\<close>. The read throws a \<^verbatim>\<open>TypeError\<close> when \<^verbatim>\<open>e\<close> is \<^verbatim>\<open>null\<close> or
  \<^verbatim>\<open>undefined\<close>, and nothing catches that one.
\<close>

fun catch_block :: "error \<Rightarrow> plugin \<Rightarrow> (error + unit) \<times> plugin" where
  "catch_block Nullish s = (Inl (TypeError PropertyOfUndefined), s)"
| "catch_block (TypeError t) s = (Inr (), s\<lparr>console_error := console_error s @ [TypeError t]\<rparr>)"
| "catch_block (RequestError m) s =
     (Inr (), s\<lparr>console_error := console_error s @ [RequestError m]\<rparr>)"

text \<open>
  The whole method. \<open>Inr\<close> is the promise fulfilled, \<open>Inl\<close> the promise rejected with what
  the \<^verbatim>\<open>catch\<close> block threw.
\<close>

definition importApiGateway :: "aws \<Rightarrow> plugin \<Rightarrow> (error + unit) \<times> plugin" where
  "importApiGateway a s =
     (case importApiGateway_try a s of
        (Inl e, s') \<Rightarrow> catch_block e s'
      | (Inr out, s') \<Rightarrow> (Inr (), s'))"

subsection \<open>The ARN format of the specification\<close>






subsection \<open>Predicates of the statements\<close>




subsection \<open>Event paths and candidates, as the specification words them\<close>

text \<open>The paths of the HTTP events of every function, in the order of the functions.\<close>

definition http_paths :: "funcs \<Rightarrow> string list" where
  "http_paths fs =
     concat (map (\<lambda>nf. case events (snd nf) of
                          None \<Rightarrow> []
                        | Some es \<Rightarrow>
                            concat (map (\<lambda>e. case http e of
                                                None \<Rightarrow> []
                                              | Some h \<Rightarrow>
                                                  (case http_path h of
                                                     None \<Rightarrow> []
                                                   | Some ep \<Rightarrow> [ep])) es)) fs)"

definition event_paths :: "plugin \<Rightarrow> string list" where
  "event_paths s = (case service_functions (service s) of None \<Rightarrow> [] | Some fs \<Rightarrow> http_paths fs)"

text \<open>
  For every event path in turn, the existing paths that are prefixes of it, in the order
  of the path index; nothing is removed.
\<close>

definition candidates :: "obj \<Rightarrow> plugin \<Rightarrow> string list" where
  "candidates P s = concat (map (\<lambda>ep. filter (\<lambda>p. prefix p ep) (obj_keys P)) (event_paths s))"

subsection \<open>Scenario values\<close>

definition arn_common :: string where
  "arn_common = ''arn:aws:lambda:us-east-1:000000000000:layer:common:1''"

definition arn_shared :: string where
  "arn_shared = ''arn:aws:lambda:us-east-1:000000000000:layer:shared-utils:7''"

text \<open>
  A provider with two REST APIs, the resources \<^verbatim>\<open>/\<close> and \<^verbatim>\<open>/users\<close> of the second, and
  one layer.
\<close>

definition scenario_aws :: aws where
  "scenario_aws =
     \<lparr>getRestApis = Inr (Some [\<lparr>api_name = ''other'', api_id = ''r0''\<rparr>,
                               \<lparr>api_name = ''my-api'', api_id = ''r1''\<rparr>]),
      getResources = (\<lambda>rid. if rid = ''r1''
                            then Inr (Some [\<lparr>res_path = ''/'', res_id = ''abc123''\<rparr>,
                                            \<lparr>res_path = ''/users'', res_id = ''u1''\<rparr>])
                            else Inr None),
      listLayers = Inr (Some [\<lparr>LayerName = ''shared-utils'',
                               LatestMatchingVersion = Some \<lparr>LayerVersionArn = arn_shared\<rparr>\<rparr>])\<rparr>"

text \<open>The path index that \<^verbatim>\<open>getRestApiPathIds\<close> builds from it.\<close>

definition scenario_pathIds :: obj where
  "scenario_pathIds = [(''/'', JStr ''abc123''), (''/users'', JStr ''u1'')]"

text \<open>
  A plugin configured for \<^verbatim>\<open>my-api\<close> with the resource \<^verbatim>\<open>/users\<close>, an empty provider
  layer list, no functions and an empty gateway section.
\<close>

definition scenario_plugin :: plugin where
  "scenario_plugin =
     \<lparr>config = \<lparr>name = ''my-api'', path = ''/'', resources = Some [''/users''],
                 config_resolveLayerArns = False\<rparr>,
      service = \<lparr>provider = \<lparr>layers = Some [],
                              apiGateway = \<lparr>restApiId = None,
                                            restApiRootResourceId = JUndefined,
                                            restApiResources = None\<rparr>\<rparr>,
                  service_functions = None\<rparr>,
      cli_log = [], console_error = []\<rparr>"

text \<open>The same plugin with layer resolution enabled and a provider layer given by name.\<close>

definition scenario_named_layer :: plugin where
  "scenario_named_layer =
     \<lparr>config = \<lparr>name = ''my-api'', path = ''/'', resources = Some [''/users''],
                 config_resolveLayerArns = True\<rparr>,
      service = \<lparr>provider = \<lparr>layers = Some [JStr ''shared-utils''],
                              apiGateway = \<lparr>restApiId = None,
                                            restApiRootResourceId = JUndefined,
                                            restApiResources = None\<rparr>\<rparr>,
                  service_functions = None\<rparr>,
      cli_log = [], console_error = []\<rparr>"

text \<open>One function with an HTTP event on \<^verbatim>\<open>/users/{id}\<close> and a layer given by name.\<close>

definition scenario_functions :: funcs where
  "scenario_functions =
     [(''getUser'',
       \<lparr>events = Some [\<lparr>http = Some \<lparr>http_path = Some ''/users/{id}''\<rparr>\<rparr>],
        func_layers = Some [JStr ''shared-utils'']\<rparr>)]"

section \<open>Dictionary objects\<close>

lemma startsWith_prefix: "startsWith s p = prefix p s"
  by (induction s p rule: startsWith.induct) auto







lemma obj_get_absent:
  "k \<notin> set (obj_keys ob) \<Longrightarrow>
     obj_get ob k = (if k \<in> set object_prototype then JInherited k else JUndefined)"
proof -
  assume "k \<notin> set (obj_keys ob)"
  then have "map_of ob k = None" by (simp add: obj_keys_def map_of_eq_None_iff)
  then show ?thesis by (simp add: obj_get_def)
qed



section \<open>The regular expression on the ARN format\<close>









section \<open>Layer resolution\<close>

lemma layers_loop_strings:
  "layers_loop (map JStr ss) ex resolvedAny acc lg =
     (Inr (resolvedAny \<or> (\<exists>l \<in> set ss. \<not> isArn l),
           acc @ map (\<lambda>l. if isArn l then JStr l else obj_get ex l) ss), lg)"
  by (induction ss arbitrary: resolvedAny acc) (auto simp: index_prop_def)

lemma layers_loop_log: "snd (layers_loop ls ex resolvedAny acc lg) = lg"
  by (induction ls ex resolvedAny acc lg rule: layers_loop.induct)
     (simp_all add: index_prop_def)

lemma layers_loop_throws:
  "fst (layers_loop ls ex resolvedAny acc lg) = Inl e \<Longrightarrow>
     e = TypeError PropertyOfUndefined \<or> e = TypeError NotAFunction"
  by (induction ls ex resolvedAny acc lg rule: layers_loop.induct)
     (auto simp: index_prop_def split: if_splits)

lemma layers_loop_not_string:
  "\<exists>l \<in> set ls. \<forall>x. l \<noteq> JStr x \<Longrightarrow> \<exists>e. fst (layers_loop ls ex resolvedAny acc lg) = Inl e"
  by (induction ls ex resolvedAny acc lg rule: layers_loop.induct)
     (auto simp: index_prop_def)

lemma u_resolveLayerArns_throws:
  "fst (u_resolveLayerArns lays ex lg) = Inl e \<Longrightarrow> e \<noteq> Nullish"
proof (cases lays)
  case None
  assume "fst (u_resolveLayerArns lays ex lg) = Inl e"
  with None show ?thesis by (auto simp: u_resolveLayerArns_def)
next
  case (Some ls)
  assume t: "fst (u_resolveLayerArns lays ex lg) = Inl e"
  obtain r lg' where l: "layers_loop ls ex False [] lg = (r, lg')"
    by (cases "layers_loop ls ex False [] lg")
  with t Some have "r = Inl e"
    by (cases r) (auto simp: u_resolveLayerArns_def split: prod.splits)
  with l layers_loop_throws [of ls ex False "[]" lg e] show ?thesis by auto
qed





lemma func_layers_loop_throws:
  "func_layers_loop fs ex lg = (Some e, fs', lg') \<Longrightarrow> e \<noteq> Nullish"
proof (induction fs arbitrary: fs' lg' lg)
  case Nil
  then show ?case by simp
next
  case (Cons nf fs)
  obtain fname f where nf: "nf = (fname, f)" by (cases nf)
  show ?case
  proof (cases "func_layers f")
    case None
    obtain r2 fs2 lg2 where rec: "func_layers_loop fs ex lg = (r2, fs2, lg2)"
      by (cases "func_layers_loop fs ex lg")
    with Cons.prems nf None have "r2 = Some e" by auto
    with rec Cons.IH show ?thesis by blast
  next
    case (Some ls)
    obtain r1 lg1 where u: "u_resolveLayerArns (Some ls) ex lg = (r1, lg1)"
      by (cases "u_resolveLayerArns (Some ls) ex lg")
    show ?thesis
    proof (cases r1)
      case (Inl e1)
      with Cons.prems nf Some u have "e = e1" by auto
      with u Inl u_resolveLayerArns_throws [of "Some ls" ex lg e] show ?thesis by simp
    next
      case (Inr resolved)
      obtain r2 fs2 lg2 where rec: "func_layers_loop fs ex lg1 = (r2, fs2, lg2)"
        by (cases "func_layers_loop fs ex lg1")
      with Cons.prems nf Some u Inr have "r2 = Some e" by auto
      with rec Cons.IH show ?thesis by blast
    qed
  qed
qed

lemma existingLayers_loop_throws:
  "existingLayers_loop ls acc = Inl e \<Longrightarrow> e = TypeError PropertyOfUndefined"
  by (induction ls arbitrary: acc) (auto split: option.splits)

lemma resolveLayerArns_nullish:
  assumes "resolveLayerArns a s = (Inl Nullish, s1)"
  shows "listLayers a = Inl Nullish"
proof (cases "listLayers a")
  case (Inl e)
  with assms show ?thesis by (simp add: resolveLayerArns_def)
next
  case (Inr response)
  let ?ls = "case response of None \<Rightarrow> [] | Some ls \<Rightarrow> ls"
  show ?thesis
  proof (cases "existingLayers_loop ?ls []")
    case (Inl e)
    with assms Inr existingLayers_loop_throws [of ?ls "[]" e] show ?thesis
      by (simp add: resolveLayerArns_def)
  next
    case ex: (Inr existingLayers)
    obtain r lg where u:
      "u_resolveLayerArns (layers (provider (service s))) existingLayers (cli_log s) = (r, lg)"
      by (cases "u_resolveLayerArns (layers (provider (service s))) existingLayers (cli_log s)")
    show ?thesis
    proof (cases r)
      case (Inl e)
      with assms Inr ex u
        u_resolveLayerArns_throws [of "layers (provider (service s))" existingLayers "cli_log s" e]
      show ?thesis by (simp add: resolveLayerArns_def)
    next
      case res: (Inr resolved)
      show ?thesis
      proof (cases "service_functions (service s)")
        case None
        with assms Inr ex u res show ?thesis
          by (simp add: resolveLayerArns_def Let_def set_layers_def)
      next
        case (Some fs)
        obtain r2 fs2 lg2 where f: "func_layers_loop fs existingLayers lg = (r2, fs2, lg2)"
          by (cases "func_layers_loop fs existingLayers lg")
        with assms Inr ex u res Some have "r2 = Some Nullish"
          by (cases r2) (simp_all add: resolveLayerArns_def Let_def set_layers_def)
        with f func_layers_loop_throws [of fs existingLayers lg Nullish fs2 lg2]
        show ?thesis by simp
      qed
    qed
  qed
qed



section \<open>The orchestrator\<close>

lemma log_simps:
  "config (log l s) = config s" "service (log l s) = service s"
  "console_error (log l s) = console_error s" "cli_log (log l s) = cli_log s @ [l]"
  by (simp_all add: log_def)

lemma set_resources_simps:
  "config (set_resources v s) = (config s)\<lparr>resources := v\<rparr>"
  "service (set_resources v s) = service s"
  "console_error (set_resources v s) = console_error s"
  "cli_log (set_resources v s) = cli_log s"
  "set_resources v (set_resources w s) = set_resources v s"
  by (simp_all add: set_resources_def)

lemma inferResources_frame:
  "service (inferResources P s) = service s"
  "console_error (inferResources P s) = console_error s"
  "cli_log (inferResources P s) = cli_log s"
  by (simp_all add: inferResources_def Let_def set_resources_simps split: option.splits)

lemma set_apiGateway_simps:
  "config (set_apiGateway g s) = config s"
  "console_error (set_apiGateway g s) = console_error s"
  "cli_log (set_apiGateway g s) = cli_log s"
  "apiGateway (provider (service (set_apiGateway g s))) = g"
  "layers (provider (service (set_apiGateway g s))) = layers (provider (service s))"
  "service_functions (service (set_apiGateway g s)) = service_functions (service s)"
  by (simp_all add: set_apiGateway_def)

lemma resolveLayerArns_frame:
  assumes "resolveLayerArns a s = (r, s1)"
  shows "config s1 = config s" and "console_error s1 = console_error s"
    and "apiGateway (provider (service s1)) = apiGateway (provider (service s))"
  using assms
  by (auto simp: resolveLayerArns_def set_layers_def set_functions_def Let_def
      split: sum.splits option.splits prod.splits)

lemma try_layers_error:
  "resolveLayerArns a s = (Inl e, s1) \<Longrightarrow> importApiGateway_try a s = (Inl e, s1)"
  by (simp add: importApiGateway_try_def)

lemma try_no_rest_api:
  assumes "resolveLayerArns a s = (Inr u, s1)"
    and "findRestApiIdByName a (name (config s)) = Inr found" and "falsy_id found"
  shows "importApiGateway_try a s = (Inr NoRestApi, log (no_rest_api (name (config s))) s1)"
  using assms resolveLayerArns_frame(1) [OF assms(1)]
  by (simp add: importApiGateway_try_def)



lemma try_no_root_resource:
  assumes "resolveLayerArns a s = (Inr u, s1)"
    and "findRestApiIdByName a (name (config s)) = Inr (Some rid)" and "rid \<noteq> []"
    and "getRestApiPathIds a rid = Inr P" and "falsy (obj_get P (path (config s)))"
  shows "importApiGateway_try a s =
           (Inr NoRootResource, log (no_root_resource (path (config s)) rid) s1)"
  using assms resolveLayerArns_frame(1) [OF assms(1)]
  by (simp add: importApiGateway_try_def falsy_id_def)

lemma try_selection:
  assumes "resolveLayerArns a s = (Inr u, s1)"
    and "findRestApiIdByName a (name (config s)) = Inr (Some rid)" and "rid \<noteq> []"
    and "getRestApiPathIds a rid = Inr P"
    and "\<not> falsy (obj_get P (path (config s)))"
    and "resources (config (inferResources P s1)) = Some rs"
  shows "importApiGateway_try a s =
     (case resources_loop P rs [] of
        Inl p \<Rightarrow> (Inr NoResource, log (no_resource p rid) (inferResources P s1))
      | Inr res \<Rightarrow>
          (Inr Imported,
           log (ImportedApiGateway
                  ((apiGateway (provider (service s)))
                     \<lparr>restApiId := Some rid,
                      restApiRootResourceId := obj_get P (path (config s)),
                      restApiResources := Some res\<rparr>))
             (set_apiGateway
                ((apiGateway (provider (service s)))
                   \<lparr>restApiId := Some rid,
                    restApiRootResourceId := obj_get P (path (config s)),
                    restApiResources := Some res\<rparr>) (inferResources P s1))))"
proof -
  have c: "config s1 = config s"
    and g: "apiGateway (provider (service s1)) = apiGateway (provider (service s))"
    using resolveLayerArns_frame [OF assms(1)] by simp_all
  have g2: "apiGateway (provider (service (inferResources P s1))) =
      apiGateway (provider (service s))"
    using g by (simp add: inferResources_frame)
  show ?thesis
    using assms c g2
    by (simp add: importApiGateway_try_def falsy_id_def Let_def set_apiGateway_simps
        split: sum.splits)
qed

lemma try_frame:
  assumes "importApiGateway_try a s = (r, s')" and "r \<noteq> Inr Imported"
  shows "apiGateway (provider (service s')) = apiGateway (provider (service s))"
    and "console_error s' = console_error s"
proof -
  obtain r1 s1 where l: "resolveLayerArns a s = (r1, s1)" by (cases "resolveLayerArns a s")
  note f = resolveLayerArns_frame [OF l]
  have "apiGateway (provider (service s')) = apiGateway (provider (service s)) \<and>
        console_error s' = console_error s"
    using assms l f
    by (auto simp: importApiGateway_try_def Let_def log_simps inferResources_frame
        split: sum.splits option.splits if_splits)
  then show "apiGateway (provider (service s')) = apiGateway (provider (service s))"
    and "console_error s' = console_error s" by simp_all
qed





lemma importApiGateway_returned:
  "importApiGateway_try a s = (Inr out, s') \<Longrightarrow> importApiGateway a s = (Inr (), s')"
  by (simp add: importApiGateway_def)

lemma importApiGateway_caught:
  "importApiGateway_try a s = (Inl e, s') \<Longrightarrow> e \<noteq> Nullish \<Longrightarrow>
     importApiGateway a s = (Inr (), s'\<lparr>console_error := console_error s @ [e]\<rparr>)"
  using try_frame(2) [of a s "Inl e" s'] by (cases e) (simp_all add: importApiGateway_def)

lemma importApiGateway_rethrown:
  "importApiGateway_try a s = (Inl Nullish, s') \<Longrightarrow>
     importApiGateway a s = (Inl (TypeError PropertyOfUndefined), s')"
  by (simp add: importApiGateway_def)

section \<open>Evaluation on the scenario values\<close>

lemmas arn_eval = isArn_def arn_regex_def line_terminator_def is_digit_def

lemmas run_eval =
  importApiGateway_def importApiGateway_try_def resolveLayerArns_def u_resolveLayerArns_def
  findRestApiIdByName_def getRestApiPathIds_def inferResources_def set_layers_def
  set_functions_def set_apiGateway_def set_resources_def log_def falsy_id_def obj_get_def
  obj_set_def obj_keys_def index_prop_def object_prototype_def no_rest_api_def
  no_root_resource_def no_resource_def quote_def Let_def scenario_aws_def scenario_plugin_def
  scenario_functions_def scenario_pathIds_def arn_common_def arn_shared_def

section \<open>Resource selection\<close>


text \<open>
  Claim C1, evaluated where it fails. The configured resource \<^verbatim>\<open>constructor\<close> is no key
  of the path index, yet \<^verbatim>\<open>pathIds['constructor']\<close> is the function every object
  inherits, the guard \<^verbatim>\<open>!resourceId\<close> lets it pass, and the run commits a resource
  mapping that holds that function instead of logging the missing path.
\<close>

theorem inherited_name_selected:
  "getRestApiPathIds scenario_aws ''r1'' = Inr scenario_pathIds \<and>
   ''constructor'' \<notin> set (obj_keys scenario_pathIds) \<and>
   resources_loop scenario_pathIds [''constructor''] [] =
     Inr [(''constructor'', JInherited ''constructor'')] \<and>
   importApiGateway scenario_aws (set_resources (Some [''constructor'']) scenario_plugin) =
     (Inr (),
      log (ImportedApiGateway
             \<lparr>restApiId = Some ''r1'', restApiRootResourceId = JStr ''abc123'',
              restApiResources = Some [(''constructor'', JInherited ''constructor'')]\<rparr>)
        (set_apiGateway
           \<lparr>restApiId = Some ''r1'', restApiRootResourceId = JStr ''abc123'',
            restApiResources = Some [(''constructor'', JInherited ''constructor'')]\<rparr>
           (set_resources (Some [''constructor'']) scenario_plugin)))"
  by (simp add: run_eval)

section \<open>Layer names absent from the inventory\<close>

text \<open>
  Claim C9, amended. On a list of strings \<^verbatim>\<open>_resolveLayerArns\<close> returns, and its result
  has the length of its input: an ARN stays, and any other name is replaced by what the
  read \<^verbatim>\<open>existingLayers[name]\<close> returns, which for a name absent from the inventory is
  \<^verbatim>\<open>undefined\<close>, or the inherited member when the name is one of \<^verbatim>\<open>Object.prototype\<close>.
  On every list, the only line it can log is the one of resolved ARNs, so the line of
  the \<^verbatim>\<open>catch\<close> branch is never written. A list with an entry that is no string makes
  it throw.
\<close>

theorem unresolved_name_kept_as_undefined:
  "(\<exists>out lg'.
      u_resolveLayerArns (Some (map JStr ss)) ex lg = (Inr out, lg') \<and>
      length out = length ss \<and>
      (\<forall>i < length ss.
         out ! i =
           (if isArn (ss ! i) then JStr (ss ! i)
            else if ss ! i \<in> set (obj_keys ex) then obj_get ex (ss ! i)
            else if ss ! i \<in> set object_prototype then JInherited (ss ! i)
            else JUndefined)) \<and>
      lg' =
        (if \<exists>l \<in> set ss. \<not> isArn l
         then lg @ [Line (''Resolved layer ARNs: '' @ array_toString out)] else lg)) \<and>
   (\<forall>ls. snd (u_resolveLayerArns (Some ls) ex lg) = lg \<or>
         (\<exists>out. snd (u_resolveLayerArns (Some ls) ex lg) =
                  lg @ [Line (''Resolved layer ARNs: '' @ array_toString out)])) \<and>
   (\<forall>ls. (\<exists>l \<in> set ls. \<forall>x. l \<noteq> JStr x) \<longrightarrow>
         (\<exists>t. fst (u_resolveLayerArns (Some ls) ex lg) = Inl (TypeError t)))"
proof (intro conjI allI impI)
  have e: "\<And>l. (if l \<in> set (obj_keys ex) then obj_get ex l
                 else if l \<in> set object_prototype then JInherited l else JUndefined) =
               obj_get ex l"
    by (simp add: obj_get_absent)
  show "\<exists>out lg'.
      u_resolveLayerArns (Some (map JStr ss)) ex lg = (Inr out, lg') \<and>
      length out = length ss \<and>
      (\<forall>i < length ss.
         out ! i =
           (if isArn (ss ! i) then JStr (ss ! i)
            else if ss ! i \<in> set (obj_keys ex) then obj_get ex (ss ! i)
            else if ss ! i \<in> set object_prototype then JInherited (ss ! i)
            else JUndefined)) \<and>
      lg' =
        (if \<exists>l \<in> set ss. \<not> isArn l
         then lg @ [Line (''Resolved layer ARNs: '' @ array_toString out)] else lg)"
    by (simp add: u_resolveLayerArns_def layers_loop_strings e)
next
  fix ls
  obtain r lg' where l: "layers_loop ls ex False [] lg = (r, lg')"
    by (cases "layers_loop ls ex False [] lg")
  with layers_loop_log [of ls ex False "[]" lg] have "lg' = lg" by simp
  with l have l': "layers_loop ls ex False [] lg = (r, lg)" by simp
  show "snd (u_resolveLayerArns (Some ls) ex lg) = lg \<or>
         (\<exists>out. snd (u_resolveLayerArns (Some ls) ex lg) =
                  lg @ [Line (''Resolved layer ARNs: '' @ array_toString out)])"
  proof (cases r)
    case (Inl e)
    with l' show ?thesis by (simp add: u_resolveLayerArns_def)
  next
    case (Inr p)
    obtain resolvedAny out where p: "p = (resolvedAny, out)" by (cases p)
    show ?thesis
    proof (cases resolvedAny)
      case True
      with l' Inr p have "snd (u_resolveLayerArns (Some ls) ex lg) =
          lg @ [Line (''Resolved layer ARNs: '' @ array_toString out)]"
        by (simp add: u_resolveLayerArns_def)
      then show ?thesis by blast
    next
      case False
      with l' Inr p show ?thesis by (simp add: u_resolveLayerArns_def)
    qed
  qed
next
  fix ls
  assume "\<exists>l \<in> set ls. \<forall>x. l \<noteq> JStr x"
  from layers_loop_not_string [OF this, of ex False "[]" lg] obtain e where
    e: "fst (layers_loop ls ex False [] lg) = Inl e" by blast
  with layers_loop_throws [OF e] obtain t where "e = TypeError t" by blast
  with e show "\<exists>t. fst (u_resolveLayerArns (Some ls) ex lg) = Inl (TypeError t)"
    by (cases "layers_loop ls ex False [] lg") (auto simp: u_resolveLayerArns_def)
qed

theorem unresolved_name_kept_as_undefined_witness:
  "u_resolveLayerArns (Some [JStr ''shared-utils'']) [] [] =
     (Inr [JUndefined], [Line ''Resolved layer ARNs: '']) \<and>
   (\<exists>t. fst (u_resolveLayerArns (Some [JStr arn_common, JUndefined]) [] []) =
          Inl (TypeError t))"
proof -
  have 1: "u_resolveLayerArns (Some [JStr ''shared-utils'']) [] [] =
     (Inr [JUndefined], [Line ''Resolved layer ARNs: ''])"
    using unresolved_name_kept_as_undefined [of "[''shared-utils'']" "[]" "[]"]
    by (auto simp: arn_eval obj_keys_def object_prototype_def length_Suc_conv)
  have "\<exists>l \<in> set [JStr arn_common, JUndefined]. \<forall>x. l \<noteq> JStr x" by simp
  with unresolved_name_kept_as_undefined [of "[]" "[]" "[]"]
  have "\<exists>t. fst (u_resolveLayerArns (Some [JStr arn_common, JUndefined]) [] []) =
      Inl (TypeError t)" by blast
  with 1 show ?thesis by simp
qed

text \<open>
  Claim C9 as stated fails twice. The name \<^verbatim>\<open>constructor\<close> is absent from the
  inventory, and the entry it leaves is not \<^verbatim>\<open>undefined\<close> but the function that
  \<^verbatim>\<open>existingLayers['constructor']\<close> returns. A list whose entry is \<^verbatim>\<open>undefined\<close>, such
  as an earlier result, yields no list at all: \<^verbatim>\<open>isArn\<close> throws.
\<close>

theorem unresolved_name_counterexample:
  "''constructor'' \<notin> set (obj_keys [(''shared-utils'', JStr arn_shared)]) \<and>
   \<not> isArn ''constructor'' \<and>
   fst (u_resolveLayerArns (Some [JStr ''constructor'']) [(''shared-utils'', JStr arn_shared)] []) =
     Inr [JInherited ''constructor''] \<and>
   fst (u_resolveLayerArns (Some [JUndefined]) [(''shared-utils'', JStr arn_shared)] []) =
     Inl (TypeError PropertyOfUndefined)"
  by (simp add: u_resolveLayerArns_def arn_eval index_prop_def obj_get_def obj_keys_def
        object_prototype_def)

text \<open>
  Claim C4, evaluated where it fails. The list holds an ARN and the name \<^verbatim>\<open>missing\<close>,
  which the inventory does not have: the result keeps two entries, the second
  \<^verbatim>\<open>undefined\<close>, and the log has the line of resolved ARNs only, with no diagnostic
  naming \<^verbatim>\<open>missing\<close>.
\<close>

theorem missing_layer_not_logged_not_dropped:
  "u_resolveLayerArns (Some [JStr arn_common, JStr ''missing''])
     [(''shared-utils'', JStr arn_shared)] [] =
     (Inr [JStr arn_common, JUndefined], [Line (''Resolved layer ARNs: '' @ arn_common @ '','')])"
  by (simp add: u_resolveLayerArns_def arn_eval index_prop_def obj_get_def
        object_prototype_def arn_common_def arn_shared_def)

section \<open>Layers that are ARNs already\<close>



section \<open>Inferred resources\<close>

lemma existing_loop_filter:
  "existing_loop ep P acc = acc @ filter (\<lambda>p. prefix p ep) (obj_keys P)"
  by (induction ep P acc rule: existing_loop.induct)
     (simp_all add: obj_keys_def startsWith_prefix)

lemma events_loop_concat:
  "events_loop es P acc =
     acc @ concat (map (\<lambda>ep. filter (\<lambda>p. prefix p ep) (obj_keys P))
             (concat (map (\<lambda>e. case http e of
                                  None \<Rightarrow> []
                                | Some h \<Rightarrow> (case http_path h of None \<Rightarrow> [] | Some ep \<Rightarrow> [ep]))
                        es)))"
  by (induction es arbitrary: acc) (simp_all add: existing_loop_filter split: option.splits)

lemma functions_loop_concat:
  "functions_loop fs P acc =
     acc @ concat (map (\<lambda>ep. filter (\<lambda>p. prefix p ep) (obj_keys P)) (http_paths fs))"
proof (induction fs arbitrary: acc)
  case Nil
  then show ?case by (simp add: http_paths_def)
next
  case (Cons nf fs)
  obtain fname f where nf: "nf = (fname, f)" by (cases nf)
  have h: "http_paths ((fname, f) # fs) =
      (case events f of
         None \<Rightarrow> []
       | Some es \<Rightarrow>
           concat (map (\<lambda>e. case http e of
                               None \<Rightarrow> []
                             | Some h \<Rightarrow> (case http_path h of None \<Rightarrow> [] | Some ep \<Rightarrow> [ep]))
                     es)) @ http_paths fs"
    by (simp add: http_paths_def)
  show ?case
    by (cases "events f") (simp_all add: nf h Cons.IH events_loop_concat)
qed

lemma inferResources_candidates:
  assumes "resources (config s) = None"
  shows "inferResources P s =
           set_resources (Some (if candidates P s = [] then obj_keys P else candidates P s)) s"
proof (cases "service_functions (service s)")
  case None
  with assms show ?thesis
    by (simp add: inferResources_def candidates_def event_paths_def)
next
  case (Some fs)
  have "functions_loop fs P [] = candidates P s"
    by (simp add: functions_loop_concat candidates_def event_paths_def Some)
  with assms Some show ?thesis
    by (simp add: inferResources_def Let_def set_resources_simps)
qed

lemma func_layers_loop_http_paths:
  "func_layers_loop fs ex lg = (r, fs', lg') \<Longrightarrow> http_paths fs' = http_paths fs"
proof (induction fs arbitrary: r fs' lg' lg)
  case Nil
  then show ?case by simp
next
  case (Cons nf fs)
  obtain fname f where nf: "nf = (fname, f)" by (cases nf)
  have step: "\<And>g gs. events g = events f \<Longrightarrow> http_paths gs = http_paths fs \<Longrightarrow>
      http_paths ((fname, g) # gs) = http_paths ((fname, f) # fs)"
    by (simp add: http_paths_def)
  show ?case
  proof (cases "func_layers f")
    case None
    obtain r2 fs2 lg2 where rec: "func_layers_loop fs ex lg = (r2, fs2, lg2)"
      by (cases "func_layers_loop fs ex lg")
    with Cons.prems nf None have "fs' = (fname, f) # fs2" by auto
    with Cons.IH [OF rec] step [of f fs2] nf show ?thesis by simp
  next
    case (Some ls)
    obtain r1 lg1 where u: "u_resolveLayerArns (Some ls) ex lg = (r1, lg1)"
      by (cases "u_resolveLayerArns (Some ls) ex lg")
    show ?thesis
    proof (cases r1)
      case (Inl e)
      with Cons.prems nf Some u have "fs' = (fname, f) # fs" by auto
      with nf show ?thesis by simp
    next
      case (Inr resolved)
      obtain r2 fs2 lg2 where rec: "func_layers_loop fs ex lg1 = (r2, fs2, lg2)"
        by (cases "func_layers_loop fs ex lg1")
      with Cons.prems nf Some u Inr
      have "fs' = (fname, f\<lparr>func_layers := Some resolved\<rparr>) # fs2" by auto
      with Cons.IH [OF rec] step [of "f\<lparr>func_layers := Some resolved\<rparr>" fs2] nf
      show ?thesis by simp
    qed
  qed
qed

lemma resolveLayerArns_event_paths:
  "resolveLayerArns a s = (r, s1) \<Longrightarrow> event_paths s1 = event_paths s"
  by (auto simp: resolveLayerArns_def set_layers_def set_functions_def Let_def event_paths_def
        func_layers_loop_http_paths
      split: sum.splits option.splits prod.splits)

lemma candidates_cong: "event_paths s1 = event_paths s \<Longrightarrow> candidates P s1 = candidates P s"
  by (simp add: candidates_def)

text \<open>
  Claim C2. With \<^verbatim>\<open>config.resources\<close> unset, inference sets it to the list of
  candidates when that list is not empty, and to all keys of the path index otherwise;
  nothing else of the plugin changes. The candidates are, for every HTTP event path of
  every function in turn, the existing paths that are prefixes of it, duplicates kept.
  With no HTTP event path there is no candidate. In a run that reaches resource
  selection, \<^verbatim>\<open>config.resources\<close> ends with that value.
\<close>

theorem inferred_resources:
  "resources (config s) = None \<Longrightarrow>
     inferResources P s =
       set_resources (Some (if candidates P s = [] then obj_keys P else candidates P s)) s \<and>
     (event_paths s = [] \<longrightarrow> candidates P s = []) \<and>
     (\<forall>a s1 rid.
        resolveLayerArns a s = (Inr (), s1) \<longrightarrow>
        findRestApiIdByName a (name (config s)) = Inr (Some rid) \<longrightarrow> rid \<noteq> [] \<longrightarrow>
        getRestApiPathIds a rid = Inr P \<longrightarrow>
        \<not> falsy (obj_get P (path (config s))) \<longrightarrow>
        fst (importApiGateway a s) = Inr () \<and>
        resources (config (snd (importApiGateway a s))) =
          Some (if candidates P s = [] then obj_keys P else candidates P s))"
proof (intro conjI allI impI)
  assume n: "resources (config s) = None"
  then show "inferResources P s =
      set_resources (Some (if candidates P s = [] then obj_keys P else candidates P s)) s"
    by (rule inferResources_candidates)
  show "candidates P s = []" if "event_paths s = []"
    using that by (simp add: candidates_def)
  fix a s1 rid
  assume h: "resolveLayerArns a s = (Inr (), s1)"
    "findRestApiIdByName a (name (config s)) = Inr (Some rid)" "rid \<noteq> []"
    "getRestApiPathIds a rid = Inr P" "\<not> falsy (obj_get P (path (config s)))"
  let ?rs = "if candidates P s = [] then obj_keys P else candidates P s"
  have n1: "resources (config s1) = None"
    using resolveLayerArns_frame(1) [OF h(1)] n by simp
  have c: "candidates P s1 = candidates P s"
    using resolveLayerArns_event_paths [OF h(1)] by (rule candidates_cong)
  have i: "inferResources P s1 = set_resources (Some ?rs) s1"
    using inferResources_candidates [OF n1, of P] c by simp
  then have r: "resources (config (inferResources P s1)) = Some ?rs"
    by (simp add: set_resources_simps)
  have 1: "resources (config (snd (importApiGateway_try a s))) = Some ?rs"
    using try_selection [OF h r] r
    by (simp add: log_simps set_apiGateway_simps split: sum.splits)
  have 2: "\<exists>out. fst (importApiGateway_try a s) = Inr out"
    using try_selection [OF h r] by (simp split: sum.splits)
  from 2 show "fst (importApiGateway a s) = Inr ()"
    by (auto simp: importApiGateway_def split: prod.splits sum.splits)
  from 1 2 show "resources (config (snd (importApiGateway a s))) = Some ?rs"
    by (auto simp: importApiGateway_def split: prod.splits sum.splits)
qed

theorem inferred_resources_witness:
  "resources (config (inferResources [(''/users'', JStr ''u1''), (''/orders'', JStr ''o1'')]
      (set_functions
         (Some [(''getUser'',
                 \<lparr>events = Some [\<lparr>http = Some \<lparr>http_path = Some ''/users/{id}''\<rparr>\<rparr>,
                                 \<lparr>http = None\<rparr>,
                                 \<lparr>http = Some \<lparr>http_path = Some ''/users''\<rparr>\<rparr>],
                  func_layers = None\<rparr>)])
         (set_resources None scenario_plugin)))) = Some [''/users'', ''/users''] \<and>
   resources (config (inferResources [(''/users'', JStr ''u1''), (''/orders'', JStr ''o1'')]
      (set_resources None scenario_plugin))) = Some [''/users'', ''/orders''] \<and>
   resources (config (snd (importApiGateway scenario_aws
      (set_functions (Some scenario_functions) (set_resources None scenario_plugin))))) =
     Some [''/'', ''/users'']"
proof -
  let ?P = "[(''/users'', JStr ''u1''), (''/orders'', JStr ''o1'')]"
  let ?s0 = "set_resources None scenario_plugin"
  let ?s1 = "set_functions
         (Some [(''getUser'',
                 \<lparr>events = Some [\<lparr>http = Some \<lparr>http_path = Some ''/users/{id}''\<rparr>\<rparr>,
                                 \<lparr>http = None\<rparr>,
                                 \<lparr>http = Some \<lparr>http_path = Some ''/users''\<rparr>\<rparr>],
                  func_layers = None\<rparr>)]) ?s0"
  let ?s2 = "set_functions (Some scenario_functions) ?s0"
  let ?s3 = "set_functions
         (Some [(''getUser'',
                 \<lparr>events = Some [\<lparr>http = Some \<lparr>http_path = Some ''/users/{id}''\<rparr>\<rparr>],
                  func_layers = Some [JStr arn_shared]\<rparr>)])
         (log (Line (''Resolved layer ARNs: '' @ arn_shared)) ?s0)"
  have n: "resources (config ?s0) = None" "resources (config ?s1) = None"
    "resources (config ?s2) = None"
    by (simp_all add: set_resources_def set_functions_def)
  have c: "candidates ?P ?s1 = [''/users'', ''/users'']" "candidates ?P ?s0 = []"
    "candidates scenario_pathIds ?s2 = [''/'', ''/users'']"
    by (simp_all add: candidates_def event_paths_def http_paths_def obj_keys_def
          set_resources_def set_functions_def scenario_plugin_def scenario_functions_def
          scenario_pathIds_def)
  have k: "obj_keys ?P = [''/users'', ''/orders'']" by (simp add: obj_keys_def)
  have 1: "resolveLayerArns scenario_aws ?s2 = (Inr (), ?s3)"
    by (simp add: run_eval arn_eval)
  have 2: "findRestApiIdByName scenario_aws (name (config ?s2)) = Inr (Some ''r1'')"
    by (simp add: run_eval)
  have 3: "getRestApiPathIds scenario_aws ''r1'' = Inr scenario_pathIds"
    by (simp add: run_eval)
  have 4: "\<not> falsy (obj_get scenario_pathIds (path (config ?s2)))"
    by (simp add: run_eval)
  have "resources (config (inferResources ?P ?s1)) = Some [''/users'', ''/users'']"
    using inferred_resources [OF n(2), of ?P] c(1) by (simp add: set_resources_simps)
  moreover have "resources (config (inferResources ?P ?s0)) = Some [''/users'', ''/orders'']"
    using inferred_resources [OF n(1), of ?P] c(2) k by (simp add: set_resources_simps)
  moreover have "resources (config (snd (importApiGateway scenario_aws ?s2))) =
      Some [''/'', ''/users'']"
    using inferred_resources [OF n(3), of scenario_pathIds] 1 2 3 4 c(3) by simp
  ultimately show ?thesis by simp
qed

section \<open>Aborted runs\<close>

text \<open>
  Claim C5, amended. When layer resolution has ended without an exception and the name
  lookup yields no ID, the run logs \<^verbatim>\<open>Unable to find REST API named '...'\<close> and returns;
  when the ID is found and the configured root path is no key of the path index and no
  property name of \<^verbatim>\<open>Object.prototype\<close>, the run logs
  \<^verbatim>\<open>Unable to find root resource path (...) for REST API (...)\<close> and returns. In both cases
  the plugin is the one layer resolution left with that one line added: the
  configuration and the gateway section are those of the start, and the layer lists are
  as layer resolution rewrote them.
\<close>

theorem abort_before_selection:
  "resolveLayerArns a s = (Inr (), s1) \<Longrightarrow>
     (\<forall>found. findRestApiIdByName a (name (config s)) = Inr found \<longrightarrow> falsy_id found \<longrightarrow>
        importApiGateway a s = (Inr (), log (no_rest_api (name (config s))) s1)) \<and>
     (\<forall>rid P. findRestApiIdByName a (name (config s)) = Inr (Some rid) \<longrightarrow> rid \<noteq> [] \<longrightarrow>
        getRestApiPathIds a rid = Inr P \<longrightarrow>
        path (config s) \<notin> set (obj_keys P) \<longrightarrow> path (config s) \<notin> set object_prototype \<longrightarrow>
        importApiGateway a s = (Inr (), log (no_root_resource (path (config s)) rid) s1)) \<and>
     config s1 = config s \<and> console_error s1 = console_error s \<and>
     apiGateway (provider (service s1)) = apiGateway (provider (service s))"
proof (intro conjI allI impI)
  assume l: "resolveLayerArns a s = (Inr (), s1)"
  show "config s1 = config s" "console_error s1 = console_error s"
    "apiGateway (provider (service s1)) = apiGateway (provider (service s))"
    using resolveLayerArns_frame [OF l] by simp_all
  show "importApiGateway a s = (Inr (), log (no_rest_api (name (config s))) s1)"
    if "findRestApiIdByName a (name (config s)) = Inr found" "falsy_id found" for found
    using try_no_rest_api [OF l that] by (rule importApiGateway_returned)
  show "importApiGateway a s = (Inr (), log (no_root_resource (path (config s)) rid) s1)"
    if f: "findRestApiIdByName a (name (config s)) = Inr (Some rid)" "rid \<noteq> []"
      "getRestApiPathIds a rid = Inr P"
      and k: "path (config s) \<notin> set (obj_keys P)" "path (config s) \<notin> set object_prototype"
    for rid P
  proof -
    have "falsy (obj_get P (path (config s)))"
      using k by (simp add: obj_get_absent)
    from try_no_root_resource [OF l f this] show ?thesis
      by (rule importApiGateway_returned)
  qed
qed

theorem abort_before_selection_witness:
  "importApiGateway (scenario_aws\<lparr>getRestApis := Inr (Some [\<lparr>api_name = ''other'', api_id = ''r0''\<rparr>])\<rparr>)
     scenario_plugin =
     (Inr (),
      scenario_plugin
        \<lparr>cli_log := [Line (''Unable to find REST API named '' @ [CHR 0x27] @ ''my-api'' @ [CHR 0x27])]\<rparr>) \<and>
   importApiGateway scenario_aws (scenario_plugin\<lparr>config := (config scenario_plugin)\<lparr>path := ''/v1''\<rparr>\<rparr>) =
     (Inr (),
      scenario_plugin
        \<lparr>config := (config scenario_plugin)\<lparr>path := ''/v1''\<rparr>,
         cli_log := [Line ''Unable to find root resource path (/v1) for REST API (r1)'']\<rparr>)"
proof -
  let ?a = "scenario_aws\<lparr>getRestApis := Inr (Some [\<lparr>api_name = ''other'', api_id = ''r0''\<rparr>])\<rparr>"
  let ?s = "scenario_plugin\<lparr>config := (config scenario_plugin)\<lparr>path := ''/v1''\<rparr>\<rparr>"
  have 1: "resolveLayerArns ?a scenario_plugin = (Inr (), scenario_plugin)"
    by (simp add: run_eval)
  have 2: "findRestApiIdByName ?a (name (config scenario_plugin)) = Inr None"
    by (simp add: run_eval)
  have 3: "resolveLayerArns scenario_aws ?s = (Inr (), ?s)"
    by (simp add: run_eval)
  have 4: "findRestApiIdByName scenario_aws (name (config ?s)) = Inr (Some ''r1'')"
    by (simp add: run_eval)
  have 5: "getRestApiPathIds scenario_aws ''r1'' = Inr scenario_pathIds"
    by (simp add: run_eval)
  have 6: "path (config ?s) \<notin> set (obj_keys scenario_pathIds)"
    "path (config ?s) \<notin> set object_prototype"
    by (simp_all add: obj_keys_def scenario_pathIds_def object_prototype_def)
  have "importApiGateway ?a scenario_plugin =
          (Inr (), log (no_rest_api (name (config scenario_plugin))) scenario_plugin)"
    using abort_before_selection [OF 1] 2 by (simp add: falsy_id_def)
  moreover have "importApiGateway scenario_aws ?s =
          (Inr (), log (no_root_resource (path (config ?s)) ''r1'') ?s)"
    using abort_before_selection [OF 3] 4 5 6 by blast
  ultimately show ?thesis
    by (simp add: log_def no_rest_api_def no_root_resource_def quote_def scenario_plugin_def)
qed

text \<open>
  Claim C5 as stated fails in three ways. Layer resolution runs before the name lookup:
  here it is enabled, the gateway list has no \<^verbatim>\<open>my-api\<close>, the run logs that and returns,
  and the provider layer list has been rewritten from the name to the ARN. A root path
  that is absent from the path index does not stop the run when it is a property name
  of \<^verbatim>\<open>Object.prototype\<close>: with the root path \<^verbatim>\<open>constructor\<close> the run goes on and
  commits the inherited function as the root resource. And when layer resolution throws,
  as it does without a provider layer list, the run ends before the lookup: no gateway
  is named \<^verbatim>\<open>my-api\<close>, and nothing is logged about it.
\<close>

theorem abort_before_selection_counterexample:
  "findRestApiIdByName
     (scenario_aws\<lparr>getRestApis := Inr (Some [\<lparr>api_name = ''other'', api_id = ''r0''\<rparr>])\<rparr>)
     (name (config scenario_named_layer)) = Inr None \<and>
   importApiGateway
     (scenario_aws\<lparr>getRestApis := Inr (Some [\<lparr>api_name = ''other'', api_id = ''r0''\<rparr>])\<rparr>)
     scenario_named_layer =
     (Inr (),
      log (no_rest_api ''my-api'')
        (log (Line (''Resolved layer ARNs: '' @ arn_shared))
           (set_layers (Some [JStr arn_shared]) scenario_named_layer))) \<and>
   service
     (snd (importApiGateway
        (scenario_aws\<lparr>getRestApis := Inr (Some [\<lparr>api_name = ''other'', api_id = ''r0''\<rparr>])\<rparr>)
        scenario_named_layer)) \<noteq>
     service scenario_named_layer \<and>
   getRestApiPathIds scenario_aws ''r1'' = Inr scenario_pathIds \<and>
   ''constructor'' \<notin> set (obj_keys scenario_pathIds) \<and>
   importApiGateway scenario_aws
     (scenario_plugin\<lparr>config := (config scenario_plugin)\<lparr>path := ''constructor''\<rparr>\<rparr>) =
     (Inr (),
      log (ImportedApiGateway
             \<lparr>restApiId = Some ''r1'', restApiRootResourceId = JInherited ''constructor'',
              restApiResources = Some [(''/users'', JStr ''u1'')]\<rparr>)
        (set_apiGateway
           \<lparr>restApiId = Some ''r1'', restApiRootResourceId = JInherited ''constructor'',
            restApiResources = Some [(''/users'', JStr ''u1'')]\<rparr>
           (scenario_plugin\<lparr>config := (config scenario_plugin)\<lparr>path := ''constructor''\<rparr>\<rparr>))) \<and>
   importApiGateway
     (scenario_aws\<lparr>getRestApis := Inr (Some [\<lparr>api_name = ''other'', api_id = ''r0''\<rparr>])\<rparr>)
     (set_layers None scenario_plugin) =
     (Inr (), (set_layers None scenario_plugin)\<lparr>console_error := [TypeError NotIterable]\<rparr>)"
  by (simp add: run_eval arn_eval scenario_named_layer_def)

section \<open>The committed gateway section\<close>



section \<open>Exceptions\<close>


lemma resolveLayerArns_no_layers:
  "layers (provider (service s)) = None \<Longrightarrow> \<exists>e. resolveLayerArns a s = (Inl e, s)"
  by (auto simp: resolveLayerArns_def u_resolveLayerArns_def split: sum.splits)

lemma resolveLayerArns_not_iterable:
  "layers (provider (service s)) = None \<Longrightarrow> listLayers a = Inr response \<Longrightarrow>
   existingLayers_loop (case response of None \<Rightarrow> [] | Some ls \<Rightarrow> ls) [] = Inr ex \<Longrightarrow>
     resolveLayerArns a s = (Inl (TypeError NotIterable), s)"
  by (simp add: resolveLayerArns_def u_resolveLayerArns_def)




text \<open>
  Claim C10. When \<^verbatim>\<open>provider.layers\<close> is \<^verbatim>\<open>undefined\<close>, layer resolution throws and
  the \<^verbatim>\<open>catch\<close> block ends the run with the plugin of the start: the service, the
  configuration and the log are unchanged, whatever the provider answers. The error is
  printed unless it is a rejection of the layer listing with \<^verbatim>\<open>null\<close> or \<^verbatim>\<open>undefined\<close>;
  when the layer listing itself is well formed the error is the \<^verbatim>\<open>TypeError\<close> of
  iterating \<^verbatim>\<open>undefined\<close>.
\<close>

theorem no_provider_layers_aborts:
  "layers (provider (service s)) = None \<Longrightarrow>
     (\<exists>e. resolveLayerArns a s = (Inl e, s) \<and>
          importApiGateway a s =
            (if e = Nullish then (Inl (TypeError PropertyOfUndefined), s)
             else (Inr (), s\<lparr>console_error := console_error s @ [e]\<rparr>))) \<and>
     (listLayers a \<noteq> Inl Nullish \<longrightarrow>
        (\<exists>e. importApiGateway a s = (Inr (), s\<lparr>console_error := console_error s @ [e]\<rparr>))) \<and>
     (\<forall>response ex. listLayers a = Inr response \<longrightarrow>
        existingLayers_loop (case response of None \<Rightarrow> [] | Some ls \<Rightarrow> ls) [] = Inr ex \<longrightarrow>
        importApiGateway a s =
          (Inr (), s\<lparr>console_error := console_error s @ [TypeError NotIterable]\<rparr>)) \<and>
     service (snd (importApiGateway a s)) = service s \<and>
     config (snd (importApiGateway a s)) = config s \<and>
     cli_log (snd (importApiGateway a s)) = cli_log s"
proof -
  assume n: "layers (provider (service s)) = None"
  from resolveLayerArns_no_layers [OF n, of a] obtain e where
    r: "resolveLayerArns a s = (Inl e, s)" by blast
  then have t: "importApiGateway_try a s = (Inl e, s)" by (rule try_layers_error)
  have 1: "importApiGateway a s =
      (if e = Nullish then (Inl (TypeError PropertyOfUndefined), s)
       else (Inr (), s\<lparr>console_error := console_error s @ [e]\<rparr>))"
    using t importApiGateway_caught [of a s e s] importApiGateway_rethrown [of a s s]
    by (cases "e = Nullish") simp_all
  have 2: "\<exists>e. importApiGateway a s = (Inr (), s\<lparr>console_error := console_error s @ [e]\<rparr>)"
    if "listLayers a \<noteq> Inl Nullish"
  proof -
    have "e \<noteq> Nullish"
      using r resolveLayerArns_nullish [of a s s] that by auto
    with 1 show ?thesis by auto
  qed
  have 3: "importApiGateway a s =
      (Inr (), s\<lparr>console_error := console_error s @ [TypeError NotIterable]\<rparr>)"
    if "listLayers a = Inr response"
      "existingLayers_loop (case response of None \<Rightarrow> [] | Some ls \<Rightarrow> ls) [] = Inr ex"
    for response ex
  proof -
    have "resolveLayerArns a s = (Inl (TypeError NotIterable), s)"
      using n that by (rule resolveLayerArns_not_iterable)
    then have "importApiGateway_try a s = (Inl (TypeError NotIterable), s)"
      by (rule try_layers_error)
    then show ?thesis by (rule importApiGateway_caught) simp
  qed
  from 1 have 4: "service (snd (importApiGateway a s)) = service s"
    "config (snd (importApiGateway a s)) = config s"
    "cli_log (snd (importApiGateway a s)) = cli_log s"
    by (simp_all split: if_splits)
  from r 1 2 3 4 show ?thesis by blast
qed

theorem no_provider_layers_aborts_witness:
  "findRestApiIdByName scenario_aws ''my-api'' = Inr (Some ''r1'') \<and>
   getRestApiPathIds scenario_aws ''r1'' = Inr scenario_pathIds \<and>
   importApiGateway scenario_aws (set_layers None scenario_plugin) =
     (Inr (), (set_layers None scenario_plugin)\<lparr>console_error := [TypeError NotIterable]\<rparr>)"
proof -
  have 1: "layers (provider (service (set_layers None scenario_plugin))) = None"
    by (simp add: set_layers_def)
  have 2: "listLayers scenario_aws =
      Inr (Some [\<lparr>LayerName = ''shared-utils'',
                  LatestMatchingVersion = Some \<lparr>LayerVersionArn = arn_shared\<rparr>\<rparr>])"
    by (simp add: scenario_aws_def)
  have 3: "existingLayers_loop
      (case Some [\<lparr>LayerName = ''shared-utils'',
                   LatestMatchingVersion = Some \<lparr>LayerVersionArn = arn_shared\<rparr>\<rparr>] of
         None \<Rightarrow> [] | Some ls \<Rightarrow> ls) [] = Inr [(''shared-utils'', JStr arn_shared)]"
    by (simp add: obj_set_def)
  have 4: "console_error (set_layers None scenario_plugin) = []"
    by (simp add: set_layers_def scenario_plugin_def)
  have "importApiGateway scenario_aws (set_layers None scenario_plugin) =
     (Inr (), (set_layers None scenario_plugin)\<lparr>console_error := [TypeError NotIterable]\<rparr>)"
    using no_provider_layers_aborts [OF 1, of scenario_aws] 2 3 4 by simp
  then show ?thesis by (simp add: run_eval)
qed

section \<open>The flag \<^verbatim>\<open>resolveLayerArns\<close>\<close>

text \<open>
  Claim C3, evaluated where it fails. The flag is off; the run still rewrites the
  provider layer list and the layer list of the function from the name to the ARN of
  the inventory, and logs both, before it imports the gateway.
\<close>

theorem layers_resolved_with_flag_off:
  "config_resolveLayerArns (config scenario_plugin) = False \<and>
   importApiGateway scenario_aws
     (set_functions (Some scenario_functions)
        (set_layers (Some [JStr ''shared-utils'']) scenario_plugin)) =
   (Inr (),
    log (ImportedApiGateway
           \<lparr>restApiId = Some ''r1'', restApiRootResourceId = JStr ''abc123'',
            restApiResources = Some [(''/users'', JStr ''u1'')]\<rparr>)
      (set_apiGateway
         \<lparr>restApiId = Some ''r1'', restApiRootResourceId = JStr ''abc123'',
          restApiResources = Some [(''/users'', JStr ''u1'')]\<rparr>
         (log (Line (''Resolved layer ARNs: '' @ arn_shared))
            (log (Line (''Resolved layer ARNs: '' @ arn_shared))
               (set_functions
                  (Some [(''getUser'',
                          \<lparr>events = Some [\<lparr>http = Some \<lparr>http_path = Some ''/users/{id}''\<rparr>\<rparr>],
                           func_layers = Some [JStr arn_shared]\<rparr>)])
                  (set_layers (Some [JStr arn_shared]) scenario_plugin))))))"
  by (simp add: run_eval arn_eval)

end
